theory Spec2Isabelle
  imports Complex_Main
begin

section \<open>The L-system grammar and its expansion\<close>

text \<open>
  The plant component keeps its grammar in the constant \<open>SPATIAL_TREE_RULES\<close>: an axiom,
  a table of production rules, the turning angle, the base segment length, the number of
  rewriting generations and two jitter factors. JavaScript numbers are modelled as
  \<^typ>\<open>real\<close>: all arithmetic below is exact, rounding of IEEE doubles is not
  modelled. The fields \<open>angle\<close> and \<open>length\<close> carry the suffix \<open>_g\<close> since the turtle
  state has fields of the same names (and \<open>length\<close> is the list length of HOL).
\<close>

record LSystem =
  axiom :: string
  rules :: "char \<rightharpoonup> string"
  angle_g :: real
  length_g :: real
  iterations :: nat
  lengthVariation :: real
  angleVariation :: real

definition SPATIAL_TREE_RULES :: LSystem where
  "SPATIAL_TREE_RULES =
     \<lparr> axiom = ''X'',
       rules = [CHR ''X'' \<mapsto> ''F+[[X]-X]-F[-FX]+X+F[+X]-X+F[+X]+X'',
                CHR ''F'' \<mapsto> ''FF''],
       angle_g = pi / 6,
       length_g = 0.08,
       iterations = 4,
       lengthVariation = 0.1,
       angleVariation = 0.05 \<rparr>"

text \<open>
  One generation, the inner loop of \<open>generatePlantGeometry\<close>:
  \<^verbatim>\<open>
    let newString = '';
    for (const char of currentString) {
      if (SPATIAL_TREE_RULES.rules[char]) newString += SPATIAL_TREE_RULES.rules[char];
      else newString += char;
    }
  \<close>
  The test \<open>if (rules[char])\<close> is a truthiness test: it fails for a missing key
  (\<open>undefined\<close>) and also for a rule whose replacement is the empty string.
\<close>

definition truthy :: "string option \<Rightarrow> bool" where
  "truthy v = (case v of None \<Rightarrow> False | Some r \<Rightarrow> r \<noteq> [])"

definition rewrite_char :: "(char \<rightharpoonup> string) \<Rightarrow> char \<Rightarrow> string \<Rightarrow> string" where
  "rewrite_char R c newString =
     (if truthy (R c) then newString @ the (R c) else newString @ [c])"

definition rewrite :: "(char \<rightharpoonup> string) \<Rightarrow> string \<Rightarrow> string" where
  "rewrite R currentString = fold (rewrite_char R) currentString []"

text \<open>The outer loop runs the generation step \<open>iterations\<close> times, starting at the axiom.\<close>

definition expandN :: "(char \<rightharpoonup> string) \<Rightarrow> string \<Rightarrow> nat \<Rightarrow> string" where
  "expandN R S n = (rewrite R ^^ n) S"

definition expand :: "LSystem \<Rightarrow> string" where
  "expand g = expandN (rules g) (axiom g) (iterations g)"

text \<open>
  The expander as the specification words it: every character \<open>c\<close> is replaced by \<open>R[c]\<close>
  when a rule for \<open>c\<close> exists and is kept otherwise, the replacements concatenated in
  the original order.
\<close>

definition spec_rewrite :: "(char \<rightharpoonup> string) \<Rightarrow> string \<Rightarrow> string" where
  "spec_rewrite R s = concat (map (\<lambda>c. case R c of Some r \<Rightarrow> r | None \<Rightarrow> [c]) s)"

definition spec_expandN :: "(char \<rightharpoonup> string) \<Rightarrow> string \<Rightarrow> nat \<Rightarrow> string" where
  "spec_expandN R S n = (spec_rewrite R ^^ n) S"

text \<open>The same with an empty replacement treated like a missing rule.\<close>

definition replacement :: "(char \<rightharpoonup> string) \<Rightarrow> char \<Rightarrow> string" where
  "replacement R c = (case R c of Some r \<Rightarrow> (if r = [] then [c] else r) | None \<Rightarrow> [c])"

definition subst_rewrite :: "(char \<rightharpoonup> string) \<Rightarrow> string \<Rightarrow> string" where
  "subst_rewrite R s = concat (map (replacement R) s)"


section \<open>Vectors, quaternions and colours of the rendering library\<close>

text \<open>
  The interpreter computes with the vector, quaternion and colour classes of three.js.
  The operations it calls are transcribed here as functions on values, over the reals.
  A method that mutates its receiver returns the new value instead.
\<close>

datatype Vector3 = Vector3 (vx: real) (vy: real) (vz: real)

datatype Quaternion = Quaternion (qx: real) (qy: real) (qz: real) (qw: real)

datatype Color = Color (cr: real) (cg: real) (cb: real)

definition addv :: "Vector3 \<Rightarrow> Vector3 \<Rightarrow> Vector3" where
  "addv a b = Vector3 (vx a + vx b) (vy a + vy b) (vz a + vz b)"

definition multiplyScalar :: "Vector3 \<Rightarrow> real \<Rightarrow> Vector3" where
  "multiplyScalar v s = Vector3 (vx v * s) (vy v * s) (vz v * s)"

definition dot :: "Vector3 \<Rightarrow> Vector3 \<Rightarrow> real" where
  "dot a b = vx a * vx b + vy a * vy b + vz a * vz b"

definition crossVectors :: "Vector3 \<Rightarrow> Vector3 \<Rightarrow> Vector3" where
  "crossVectors a b =
     Vector3 (vy a * vz b - vz a * vy b) (vz a * vx b - vx a * vz b) (vx a * vy b - vy a * vx b)"

definition lengthv :: "Vector3 \<Rightarrow> real" where
  "lengthv v = sqrt (vx v * vx v + vy v * vy v + vz v * vz v)"

text \<open>
  \<open>normalize\<close> is \<open>divideScalar (length () || 1)\<close>, and \<open>divideScalar s\<close> is
  \<open>multiplyScalar (1 / s)\<close>: a vector of length zero is divided by one, so it stays the
  zero vector.
\<close>

definition divideScalar :: "Vector3 \<Rightarrow> real \<Rightarrow> Vector3" where
  "divideScalar v s = multiplyScalar v (1 / s)"

definition normalize :: "Vector3 \<Rightarrow> Vector3" where
  "normalize v = divideScalar v (if lengthv v = 0 then 1 else lengthv v)"

text \<open>
  \<open>setFromAxisAngle\<close> builds the quaternion of a rotation from an axis, which it takes to
  be normalized, and an angle; \<open>applyQuaternion\<close> rotates a vector by a quaternion, which
  it takes to have unit length: with \<open>t = 2 (q\<^sub>x\<^sub>y\<^sub>z \<times> v)\<close> the result is
  \<open>v + q\<^sub>w t + q\<^sub>x\<^sub>y\<^sub>z \<times> t\<close>. (Older releases of the library multiply
  \<open>q v q\<^sup>-\<^sup>1\<close> out instead; the two agree on quaternions of unit length.)
  \<open>applyAxisAngle\<close> composes the two.
\<close>

definition setFromAxisAngle :: "Vector3 \<Rightarrow> real \<Rightarrow> Quaternion" where
  "setFromAxisAngle axis ang =
     (let halfAngle = ang / 2; s = sin halfAngle
      in Quaternion (vx axis * s) (vy axis * s) (vz axis * s) (cos halfAngle))"

definition applyQuaternion :: "Vector3 \<Rightarrow> Quaternion \<Rightarrow> Vector3" where
  "applyQuaternion v q =
     (let tx = 2 * (qy q * vz v - qz q * vy v);
          ty = 2 * (qz q * vx v - qx q * vz v);
          tz = 2 * (qx q * vy v - qy q * vx v)
      in Vector3 (vx v + qw q * tx + qy q * tz - qz q * ty)
                 (vy v + qw q * ty + qz q * tx - qx q * tz)
                 (vz v + qw q * tz + qx q * ty - qy q * tx))"

definition applyAxisAngle :: "Vector3 \<Rightarrow> Vector3 \<Rightarrow> real \<Rightarrow> Vector3" where
  "applyAxisAngle v axis ang = applyQuaternion v (setFromAxisAngle axis ang)"

definition lerpColors :: "Color \<Rightarrow> Color \<Rightarrow> real \<Rightarrow> Color" where
  "lerpColors c1 c2 alpha =
     Color (cr c1 + (cr c2 - cr c1) * alpha)
           (cg c1 + (cg c2 - cg c1) * alpha)
           (cb c1 + (cb c2 - cb c1) * alpha)"

text \<open>
  Two colour operations of the library are taken as parameters, since nothing proved below
  depends on what they compute: the conversion of a hexadecimal colour code to a colour, and
  \<open>offsetHSL\<close>, which shifts hue, saturation and lightness.
\<close>

record ColorLib =
  hexColor :: "nat \<Rightarrow> Color"
  offsetHSL :: "Color \<Rightarrow> real \<Rightarrow> real \<Rightarrow> real \<Rightarrow> Color"

text \<open>
  \<open>getPlantColor\<close>: the colour of a branch from the turtle's depth and the time.
  \<open>0x8B4513 = 9127187\<close>, \<open>0xCD853F = 13468991\<close>, \<open>0xD2691E = 13789470\<close>.
\<close>

definition getPlantColor :: "ColorLib \<Rightarrow> real \<Rightarrow> real \<Rightarrow> Color" where
  "getPlantColor lib depth time =
     (let trunkColor = hexColor lib 9127187;
          branchColor = hexColor lib 13468991;
          twigColor = hexColor lib 13789470;
          t = min (depth / 5) 1;
          color = (if t < 0.3 then lerpColors trunkColor branchColor (t / 0.3)
                   else lerpColors branchColor twigColor ((t - 0.3) / 0.7));
          variation = sin (time * 0.1 + depth) * 0.05
      in offsetHSL lib color 0 0 variation)"


section \<open>The turtle and its stack\<close>

record TurtleState =
  position :: Vector3
  direction :: Vector3
  length_t :: real
  angle_t :: real
  color :: Color
  radius :: real
  depth :: real

text \<open>
  In the interpreter the turtle and the entries of the stack are values: \<open>push\<close> stores a
  copy of every field and \<open>pop\<close> returns a copy again, so no vector or colour object is
  shared between the live turtle and a saved one. (The copying itself is modelled on an
  explicit store in the last part of the model.) The stack is a list whose head is the
  top; \<open>pop\<close> returns \<open>None\<close> for the \<open>null\<close> of an empty stack.
\<close>

type_synonym TurtleStack = "TurtleState list"

definition push :: "TurtleStack \<Rightarrow> TurtleState \<Rightarrow> TurtleStack" where
  "push stk state =
     \<lparr> position = position state, direction = direction state, length_t = length_t state,
       angle_t = angle_t state, color = color state, radius = radius state,
       depth = depth state \<rparr> # stk"

definition pop :: "TurtleStack \<Rightarrow> TurtleState option \<times> TurtleStack" where
  "pop stk =
     (case stk of
        [] \<Rightarrow> (None, [])
      | state # rest \<Rightarrow>
          (Some \<lparr> position = position state, direction = direction state,
                  length_t = length_t state, angle_t = angle_t state, color = color state,
                  radius = radius state, depth = depth state \<rparr>, rest))"


section \<open>The turtle interpreter\<close>

text \<open>
  A branch is a mesh: a cylinder geometry (radius at the top, radius at the bottom,
  height, and the three tessellation arguments), the position and the orientation
  quaternion of the mesh, and the colour and shininess of its material. The quaternion
  is optional: \<open>None\<close> stands for the quaternion whose four components are all NaN.
\<close>

datatype CylinderGeometry =
  CylinderGeometry (radiusTop: real) (radiusBottom: real) (height: real)
    (radialSegments: nat) (heightSegments: nat) (openEnded: bool)

record Mesh =
  geometry :: CylinderGeometry
  mesh_position :: Vector3
  quaternion :: "Quaternion option"
  material_color :: Color
  shininess :: real

text \<open>
  The state of the traversal: the turtle, the stack, the branches emitted so far, and the
  number of calls of \<open>Math.random\<close> made so far. The random source is a parameter
  \<open>rnd\<close>: the \<open>k\<close>-th call (counting from zero) returns \<open>rnd k\<close>.
\<close>

record Interp =
  turtle :: TurtleState
  stack :: TurtleStack
  branches :: "Mesh list"
  calls :: nat

definition up :: Vector3 where
  "up = Vector3 0 1 0"

definition branch_axis :: "Vector3 \<Rightarrow> Vector3" where
  "branch_axis d = normalize (crossVectors up d)"

text \<open>
  \<open>Math.acos\<close> returns NaN for an argument outside \<open>[-1, 1]\<close>; the code passes it the dot
  product of up and direction unclamped. NaN is the value \<open>None\<close>. With a NaN angle
  \<open>setFromAxisAngle\<close> multiplies every axis component by the NaN sine and stores the NaN
  cosine, so all four components of the quaternion are NaN.
\<close>

definition Math_acos :: "real \<Rightarrow> real option" where
  "Math_acos x = (if - 1 \<le> x \<and> x \<le> 1 then Some (arccos x) else None)"

definition branch_quaternion :: "Vector3 \<Rightarrow> Quaternion option" where
  "branch_quaternion d = map_option (setFromAxisAngle (branch_axis d)) (Math_acos (dot up d))"

text \<open>
  Case \<open>F\<close>: move forward and emit a branch. The orientation of the branch is the
  rotation about the normalized cross product of up and direction by the angle
  \<open>Math.acos (up.dot (direction))\<close>. The turtle's colour is replaced by the colour of the
  branch.
\<close>

definition step_F :: "ColorLib \<Rightarrow> LSystem \<Rightarrow> (nat \<Rightarrow> real) \<Rightarrow> real \<Rightarrow> Interp \<Rightarrow> Interp" where
  "step_F lib g rnd time s =
     (let t = turtle s;
          startPos = position t;
          lengthVariation' = 1 + (rnd (calls s) - 0.5) * lengthVariation g;
          actualLength = length_t t * lengthVariation';
          newPosition = addv (position t) (multiplyScalar (direction t) actualLength);
          branchGeometry = CylinderGeometry (radius t * 0.8) (radius t) actualLength 6 1 False;
          branchPosition = addv startPos (multiplyScalar (direction t) (actualLength * 0.5));
          newColor = getPlantColor lib (depth t) time;
          branch = \<lparr> geometry = branchGeometry, mesh_position = branchPosition,
                     quaternion = branch_quaternion (direction t),
                     material_color = newColor, shininess = 20 \<rparr>
      in s\<lparr> turtle := t\<lparr> position := newPosition, color := newColor \<rparr>,
            branches := branches s @ [branch],
            calls := calls s + 1 \<rparr>)"

text \<open>
  Cases \<open>+\<close> and \<open>-\<close>: one call of the random source for the angle jitter, three for the
  rotation axis; \<open>turn\<close> is \<open>1\<close> for \<open>+\<close> and \<open>-1\<close> for \<open>-\<close>.
\<close>

definition axisSample :: "(nat \<Rightarrow> real) \<Rightarrow> nat \<Rightarrow> Vector3" where
  "axisSample rnd k = Vector3 (rnd k - 0.5) (rnd (k + 1) - 0.5) (rnd (k + 2) - 0.5)"

definition rotationAxis :: "(nat \<Rightarrow> real) \<Rightarrow> nat \<Rightarrow> Vector3" where
  "rotationAxis rnd k = normalize (axisSample rnd k)"

definition step_turn :: "real \<Rightarrow> LSystem \<Rightarrow> (nat \<Rightarrow> real) \<Rightarrow> Interp \<Rightarrow> Interp" where
  "step_turn turn g rnd s =
     (let t = turtle s;
          angleVariation' = (rnd (calls s) - 0.5) * angleVariation g;
          actualAngle = angle_t t + angleVariation'
      in s\<lparr> turtle := t\<lparr> direction :=
                 applyAxisAngle (direction t) (rotationAxis rnd (calls s + 1)) (turn * actualAngle),
               depth := depth t + 0.1 \<rparr>,
            calls := calls s + 4 \<rparr>)"

text \<open>Case \<open>[\<close>: save the turtle, shrink it, and perturb its direction.\<close>

definition spatialVariation :: "(nat \<Rightarrow> real) \<Rightarrow> nat \<Rightarrow> Vector3" where
  "spatialVariation rnd k =
     Vector3 ((rnd k - 0.5) * 0.3) ((rnd (k + 1) - 0.5) * 0.3) ((rnd (k + 2) - 0.5) * 0.3)"

definition step_push :: "(nat \<Rightarrow> real) \<Rightarrow> Interp \<Rightarrow> Interp" where
  "step_push rnd s =
     (let t = turtle s
      in s\<lparr> stack := push (stack s) t,
            turtle := t\<lparr> length_t := length_t t * 0.7,
                         radius := radius t * 0.7,
                         depth := depth t + 0.2,
                         direction :=
                           normalize (addv (direction t) (spatialVariation rnd (calls s))) \<rparr>,
            calls := calls s + 3 \<rparr>)"

text \<open>Case \<open>]\<close>: restore the turtle when the stack has an entry; lower the depth in any case.\<close>

definition step_pop :: "Interp \<Rightarrow> Interp" where
  "step_pop s =
     (case pop (stack s) of
        (restored, rest) \<Rightarrow>
          (let t = (case restored of Some r \<Rightarrow> r | None \<Rightarrow> turtle s)
           in s\<lparr> turtle := t\<lparr> depth := depth t - 0.2 \<rparr>, stack := rest \<rparr>))"

text \<open>The \<open>switch\<close> has no default case: any other character changes nothing.\<close>

definition step :: "ColorLib \<Rightarrow> LSystem \<Rightarrow> (nat \<Rightarrow> real) \<Rightarrow> real \<Rightarrow> char \<Rightarrow> Interp \<Rightarrow> Interp" where
  "step lib g rnd time c s =
     (if c = CHR ''F'' then step_F lib g rnd time s
      else if c = CHR ''+'' then step_turn 1 g rnd s
      else if c = CHR ''-'' then step_turn (- 1) g rnd s
      else if c = CHR ''['' then step_push rnd s
      else if c = CHR '']'' then step_pop s
      else s)"

definition initial :: "ColorLib \<Rightarrow> LSystem \<Rightarrow> Interp" where
  "initial lib g =
     \<lparr> turtle = \<lparr> position = Vector3 0 0 0, direction = Vector3 0 1 0,
                  length_t = length_g g, angle_t = angle_g g,
                  color = hexColor lib 9127187, radius = 0.02, depth = 0 \<rparr>,
       stack = [],
       branches = [],
       calls = 0 \<rparr>"

definition traverse :: "ColorLib \<Rightarrow> LSystem \<Rightarrow> (nat \<Rightarrow> real) \<Rightarrow> real \<Rightarrow> string \<Rightarrow> Interp \<Rightarrow> Interp" where
  "traverse lib g rnd time cs s = fold (step lib g rnd time) cs s"

definition generatePlantGeometry :: "ColorLib \<Rightarrow> LSystem \<Rightarrow> (nat \<Rightarrow> real) \<Rightarrow> real \<Rightarrow> Mesh list" where
  "generatePlantGeometry lib g rnd time =
     branches (traverse lib g rnd time (expand g) (initial lib g))"


text \<open>
  The two places where the interpreter normalizes a vector that depends on the random
  source: the rotation axis of a turn, normalized from its three samples, and the
  perturbed direction at \<open>[\<close>. \<open>nondegenerate\<close> holds of a traversal when none of these
  vectors is the zero vector before its normalization.
\<close>

definition nondegenerate_step :: "(nat \<Rightarrow> real) \<Rightarrow> char \<Rightarrow> Interp \<Rightarrow> bool" where
  "nondegenerate_step rnd c s =
     (if c = CHR ''+'' \<or> c = CHR ''-'' then axisSample rnd (calls s + 1) \<noteq> Vector3 0 0 0
      else if c = CHR ''[''
        then addv (direction (turtle s)) (spatialVariation rnd (calls s)) \<noteq> Vector3 0 0 0
      else True)"

primrec nondegenerate ::
  "ColorLib \<Rightarrow> LSystem \<Rightarrow> (nat \<Rightarrow> real) \<Rightarrow> real \<Rightarrow> string \<Rightarrow> Interp \<Rightarrow> bool" where
  "nondegenerate lib g rnd time [] s = True"
| "nondegenerate lib g rnd time (c # cs) s =
     (nondegenerate_step rnd c s \<and> nondegenerate lib g rnd time cs (step lib g rnd time c s))"

definition unit_dirs :: "Interp \<Rightarrow> bool" where
  "unit_dirs s =
     (lengthv (direction (turtle s)) = 1 \<and> list_all (\<lambda>t. lengthv (direction t) = 1) (stack s))"

text \<open>
  The calls of the random source a symbol makes, and two relations between random
  sources along a symbol string read from call number \<open>k\<close> on: \<open>same_axes\<close> holds when
  the two sources give the same three axis samples at every turn, \<open>same_perturbations\<close>
  when they give the same three perturbation samples at every \<open>[\<close>. Neither constrains
  the sample of the length jitter at \<open>F\<close> or of the angle jitter at a turn.
\<close>

definition consumed :: "char \<Rightarrow> nat" where
  "consumed c =
     (if c = CHR ''F'' then 1
      else if c = CHR ''+'' \<or> c = CHR ''-'' then 4
      else if c = CHR ''['' then 3
      else 0)"

primrec same_axes :: "(nat \<Rightarrow> real) \<Rightarrow> (nat \<Rightarrow> real) \<Rightarrow> string \<Rightarrow> nat \<Rightarrow> bool" where
  "same_axes r1 r2 [] k = True"
| "same_axes r1 r2 (c # cs) k =
     ((if c = CHR ''+'' \<or> c = CHR ''-'' then axisSample r1 (k + 1) = axisSample r2 (k + 1)
       else True)
      \<and> same_axes r1 r2 cs (k + consumed c))"

primrec same_perturbations :: "(nat \<Rightarrow> real) \<Rightarrow> (nat \<Rightarrow> real) \<Rightarrow> string \<Rightarrow> nat \<Rightarrow> bool" where
  "same_perturbations r1 r2 [] k = True"
| "same_perturbations r1 r2 (c # cs) k =
     ((if c = CHR ''['' then spatialVariation r1 k = spatialVariation r2 k else True)
      \<and> same_perturbations r1 r2 cs (k + consumed c))"

text \<open>The program's grammar with both jitter factors set to zero.\<close>

definition NO_JITTER_RULES :: LSystem where
  "NO_JITTER_RULES = SPATIAL_TREE_RULES \<lparr> lengthVariation := 0, angleVariation := 0 \<rparr>"

text \<open>
  The two ends of a branch in the scene. The library centres a cylinder geometry at the
  origin of its mesh, along the local y-axis: the cap of radius \<open>radiusTop\<close> lies at
  \<open>y = height / 2\<close>, the cap of radius \<open>radiusBottom\<close> at \<open>y = - height / 2\<close>. A mesh
  (unscaled, without a parent) places a local point at its position plus the point
  rotated by its quaternion; with a NaN quaternion no point of the mesh is defined.
\<close>

definition mesh_point :: "Mesh \<Rightarrow> Vector3 \<Rightarrow> Vector3 option" where
  "mesh_point m p =
     map_option (\<lambda>q. addv (mesh_position m) (applyQuaternion p q)) (quaternion m)"

definition top_end :: "Mesh \<Rightarrow> Vector3 option" where
  "top_end m = mesh_point m (Vector3 0 (height (geometry m) / 2) 0)"

definition bottom_end :: "Mesh \<Rightarrow> Vector3 option" where
  "bottom_end m = mesh_point m (Vector3 0 (- (height (geometry m) / 2)) 0)"

text \<open>A colour library for concrete runs: every code is black, \<open>offsetHSL\<close> changes nothing.\<close>

definition plainColors :: ColorLib where
  "plainColors = \<lparr> hexColor = (\<lambda>code. Color 0 0 0), offsetHSL = (\<lambda>c h s l. c) \<rparr>"


section \<open>The stack on a store of objects\<close>

text \<open>
  In the source a turtle state is an object whose fields \<open>position\<close>, \<open>direction\<close> and
  \<open>color\<close> hold references to a vector or colour object, and whose other fields hold
  numbers. To speak about sharing, the class \<open>TurtleStack\<close> is modelled a second time on
  an explicit store: vectors, colours and state objects live at references, and a counter
  gives the next unused reference. The private array of the stack is a list of references
  to state objects, its head the top.
\<close>

type_synonym ref = nat

record TurtleObj =
  position_ref :: ref
  direction_ref :: ref
  length_o :: real
  angle_o :: real
  color_ref :: ref
  radius_o :: real
  depth_o :: real

record Store =
  vectors :: "ref \<Rightarrow> Vector3"
  colors :: "ref \<Rightarrow> Color"
  states :: "ref \<Rightarrow> TurtleObj"
  allocated :: nat

definition new_vector :: "Store \<Rightarrow> Vector3 \<Rightarrow> Store \<times> ref" where
  "new_vector h v =
     (h\<lparr> vectors := (vectors h)(allocated h := v), allocated := Suc (allocated h) \<rparr>, allocated h)"

definition new_color :: "Store \<Rightarrow> Color \<Rightarrow> Store \<times> ref" where
  "new_color h c =
     (h\<lparr> colors := (colors h)(allocated h := c), allocated := Suc (allocated h) \<rparr>, allocated h)"

definition new_state :: "Store \<Rightarrow> TurtleObj \<Rightarrow> Store \<times> ref" where
  "new_state h t =
     (h\<lparr> states := (states h)(allocated h := t), allocated := Suc (allocated h) \<rparr>, allocated h)"

text \<open>\<open>clone\<close> of a vector or a colour makes a new object with the same components.\<close>

definition clone_vector :: "Store \<Rightarrow> ref \<Rightarrow> Store \<times> ref" where
  "clone_vector h a = new_vector h (vectors h a)"

definition clone_color :: "Store \<Rightarrow> ref \<Rightarrow> Store \<times> ref" where
  "clone_color h a = new_color h (colors h a)"

text \<open>
  The object literal that \<open>push\<close> and \<open>pop\<close> both build from a state object: clones of
  its position, direction and colour, copies of its numbers.
\<close>

definition snapshot :: "Store \<Rightarrow> ref \<Rightarrow> Store \<times> ref" where
  "snapshot h a =
     (let state = states h a;
          (h1, p) = clone_vector h (position_ref state);
          (h2, d) = clone_vector h1 (direction_ref state);
          (h3, c) = clone_color h2 (color_ref state)
      in new_state h3
           \<lparr> position_ref = p, direction_ref = d, length_o = length_o state,
             angle_o = angle_o state, color_ref = c, radius_o = radius_o state,
             depth_o = depth_o state \<rparr>)"

definition stack_push :: "Store \<Rightarrow> ref list \<Rightarrow> ref \<Rightarrow> Store \<times> ref list" where
  "stack_push h stk a = (case snapshot h a of (h', e) \<Rightarrow> (h', e # stk))"

definition stack_pop :: "Store \<Rightarrow> ref list \<Rightarrow> Store \<times> ref option \<times> ref list" where
  "stack_pop h stk =
     (case stk of
        [] \<Rightarrow> (h, None, [])
      | e # rest \<Rightarrow> (case snapshot h e of (h', r) \<Rightarrow> (h', Some r, rest)))"

text \<open>The turtle state, as a value, that a state object denotes in a store.\<close>

definition state_of :: "Store \<Rightarrow> ref \<Rightarrow> TurtleState" where
  "state_of h a =
     \<lparr> position = vectors h (position_ref (states h a)),
       direction = vectors h (direction_ref (states h a)),
       length_t = length_o (states h a),
       angle_t = angle_o (states h a),
       color = colors h (color_ref (states h a)),
       radius = radius_o (states h a),
       depth = depth_o (states h a) \<rparr>"

text \<open>
  A state object is valid when it and the objects it refers to are allocated. The
  references that can be mutated through a state object are the object itself, its two
  vectors and its colour.
\<close>

definition valid :: "Store \<Rightarrow> ref \<Rightarrow> bool" where
  "valid h a =
     (a < allocated h \<and> position_ref (states h a) < allocated h
      \<and> direction_ref (states h a) < allocated h \<and> color_ref (states h a) < allocated h)"

definition refs_of :: "Store \<Rightarrow> ref \<Rightarrow> ref set" where
  "refs_of h a =
     {a, position_ref (states h a), direction_ref (states h a), color_ref (states h a)}"

text \<open>
  Any mutation through a state object: its numbers are overwritten, its vectors and its
  colour are changed in place, to the components of an arbitrary turtle state.
\<close>

definition mutate :: "Store \<Rightarrow> ref \<Rightarrow> TurtleState \<Rightarrow> Store" where
  "mutate h a t =
     h\<lparr> states := (states h)(a := (states h a)
            \<lparr> length_o := length_t t, angle_o := angle_t t, radius_o := radius t,
              depth_o := depth t \<rparr>),
        vectors := (vectors h)(position_ref (states h a) := position t,
                               direction_ref (states h a) := direction t),
        colors := (colors h)(color_ref (states h a) := color t) \<rparr>"

text \<open>A store for concrete runs: one turtle state object at reference 3.\<close>

definition store0 :: Store where
  "store0 =
     \<lparr> vectors = (\<lambda>a. Vector3 0 0 0)(0 := Vector3 1 2 3, 1 := Vector3 0 1 0),
       colors = (\<lambda>a. Color 0 0 0)(2 := Color 1 0 0),
       states = (\<lambda>a. \<lparr> position_ref = 0, direction_ref = 1, length_o = 2, angle_o = 1,
                        color_ref = 2, radius_o = 3, depth_o = 4 \<rparr>),
       allocated = 4 \<rparr>"

section \<open>Facts about vectors and rotations\<close>

lemma lengthv_zero_iff: "lengthv v = 0 \<longleftrightarrow> v = Vector3 0 0 0"
proof (cases v)
  case (Vector3 a b c)
  have "a * a + b * b + c * c = 0 \<longleftrightarrow> a = 0 \<and> b = 0 \<and> c = 0"
  proof
    assume h: "a * a + b * b + c * c = 0"
    have "0 \<le> a * a" "0 \<le> b * b" "0 \<le> c * c" by simp_all
    with h have "a * a = 0" "b * b = 0" "c * c = 0" by linarith+
    then show "a = 0 \<and> b = 0 \<and> c = 0" by simp
  qed simp
  then show ?thesis using Vector3
    by (simp add: lengthv_def)
qed

lemma lengthv_multiplyScalar: "lengthv (multiplyScalar v s) = \<bar>s\<bar> * lengthv v"
proof -
  have "vx v * s * (vx v * s) + vy v * s * (vy v * s) + vz v * s * (vz v * s)
          = (s * s) * (vx v * vx v + vy v * vy v + vz v * vz v)"
    by (simp add: algebra_simps)
  then show ?thesis
    by (simp add: lengthv_def multiplyScalar_def real_sqrt_mult)
qed

lemma lengthv_nonneg: "0 \<le> lengthv v"
  by (simp add: lengthv_def)

lemma lengthv_normalize:
  assumes "v \<noteq> Vector3 0 0 0"
  shows "lengthv (normalize v) = 1"
proof -
  have L0: "lengthv v \<noteq> 0" using assms by (simp add: lengthv_zero_iff)
  then have "normalize v = multiplyScalar v (1 / lengthv v)"
    by (simp add: normalize_def divideScalar_def)
  then have "lengthv (normalize v) = \<bar>1 / lengthv v\<bar> * lengthv v"
    by (simp only: lengthv_multiplyScalar)
  with L0 lengthv_nonneg [of v] show ?thesis by simp
qed

lemma normalize_zero: "normalize (Vector3 0 0 0) = Vector3 0 0 0"
  by (simp add: normalize_def divideScalar_def multiplyScalar_def lengthv_def)

lemma applyQuaternion_dot:
  assumes "qx q * qx q + qy q * qy q + qz q * qz q + qw q * qw q = 1"
  shows "dot (applyQuaternion v q) (applyQuaternion v q) = dot v v"
proof (cases q, cases v)
  fix a b c d x y z
  assume q: "q = Quaternion a b c d" and v: "v = Vector3 x y z"
  from assms q have u: "a * a + b * b + c * c + d * d = 1" by simp
  show ?thesis
    using u unfolding q v
    apply (simp add: applyQuaternion_def dot_def Let_def)
    apply algebra
    done
qed

lemma lengthv_dot: "lengthv v = sqrt (dot v v)"
  by (simp add: lengthv_def dot_def)

lemma setFromAxisAngle_unit:
  assumes "lengthv a = 1"
  shows "qx (setFromAxisAngle a t) * qx (setFromAxisAngle a t)
       + qy (setFromAxisAngle a t) * qy (setFromAxisAngle a t)
       + qz (setFromAxisAngle a t) * qz (setFromAxisAngle a t)
       + qw (setFromAxisAngle a t) * qw (setFromAxisAngle a t) = 1"
proof -
  from assms have "sqrt (vx a * vx a + vy a * vy a + vz a * vz a) = 1"
    by (simp add: lengthv_def)
  then have u: "vx a * vx a + vy a * vy a + vz a * vz a = 1"
    by (simp add: real_sqrt_eq_1_iff)
  have "vx a * sin (t / 2) * (vx a * sin (t / 2)) + vy a * sin (t / 2) * (vy a * sin (t / 2))
        + vz a * sin (t / 2) * (vz a * sin (t / 2)) + cos (t / 2) * cos (t / 2)
      = (vx a * vx a + vy a * vy a + vz a * vz a) * (sin (t / 2) * sin (t / 2)) + cos (t / 2) * cos (t / 2)"
    by (simp add: algebra_simps)
  also have "\<dots> = 1" using sin_cos_squared_add [of "t / 2"]
    by (simp add: u power2_eq_square)
  finally show ?thesis
    by (simp add: setFromAxisAngle_def Let_def)
qed

lemma applyAxisAngle_length:
  assumes "lengthv a = 1"
  shows "lengthv (applyAxisAngle v a t) = lengthv v"
  by (simp add: lengthv_dot applyAxisAngle_def applyQuaternion_dot [OF setFromAxisAngle_unit [OF assms]])


lemma applyQuaternion_multiplyScalar:
  "applyQuaternion (multiplyScalar v s) q = multiplyScalar (applyQuaternion v q) s"
  by (simp add: applyQuaternion_def multiplyScalar_def Let_def algebra_simps)

lemma branch_quaternion_up: "branch_quaternion (Vector3 0 1 0) = Some (Quaternion 0 0 0 1)"
  by (simp add: branch_quaternion_def Math_acos_def branch_axis_def up_def crossVectors_def
      normalize_zero setFromAxisAngle_def dot_def)

lemma branch_axis_vertical: "branch_axis (Vector3 0 b 0) = Vector3 0 0 0"
  by (simp add: branch_axis_def up_def crossVectors_def normalize_zero)

lemma branch_quaternion_outside:
  "1 < b \<or> b < - 1 \<Longrightarrow> branch_quaternion (Vector3 a b c) = None"
  by (auto simp: branch_quaternion_def Math_acos_def dot_def up_def)

lemma rotate_up:
  assumes unit: "lengthv d = 1" and nd: "d \<noteq> Vector3 0 (- 1) 0"
  shows "map_option (applyQuaternion up) (branch_quaternion d) = Some d"
proof (cases d)
  case (Vector3 a b c)
  from unit Vector3 have u: "a * a + b * b + c * c = 1"
    by (simp add: lengthv_def real_sqrt_eq_1_iff)
  have b_range: "- 1 \<le> b" "b \<le> 1"
  proof -
    have "b * b \<le> 1" using u by (smt (verit) zero_le_square)
    then have "\<bar>b\<bar> \<le> 1" by (simp add: abs_le_square_iff [of b 1, simplified] power2_eq_square)
    then show "- 1 \<le> b" "b \<le> 1" by simp_all
  qed
  define s where "s = sqrt (c * c + a * a)"
  show ?thesis
  proof (cases "s = 0")
    case True
    then have "c * c + a * a = 0" by (simp add: s_def)
    then have ac: "a = 0" "c = 0"
      by (smt (verit) zero_le_square mult_eq_0_iff)+
    with u have "b * b = 1" by simp
    then have "b = 1 \<or> b = - 1"
      by (simp add: square_eq_1_iff [symmetric] power2_eq_square)
    with nd Vector3 ac have "b = 1" by auto
    with ac Vector3 show ?thesis
      by (simp add: branch_quaternion_up applyQuaternion_def up_def)
  next
    case False
    have spos: "0 < s" using False by (simp add: s_def less_le)
    have ss: "s * s = c * c + a * a" by (simp add: s_def)
    define th where "th = arccos b"
    define S where "S = sin (th / 2)"
    define C where "C = cos (th / 2)"
    have cosb: "cos th = b" using b_range by (simp add: th_def)
    have "sin th = sqrt (1 - b\<^sup>2)" using b_range by (simp add: th_def sin_arccos)
    also have "1 - b\<^sup>2 = c * c + a * a" using u by (simp add: power2_eq_square)
    finally have sins: "sin th = s" by (simp add: s_def)
    have SC: "2 * S * C = s" using sin_double [of "th / 2"] sins by (simp add: S_def C_def)
    have SS: "1 - 2 * (S * S) = b" using cos_double_sin [of "th / 2"] cosb
      by (simp add: S_def power2_eq_square)
    have ax: "branch_axis (Vector3 a b c) = Vector3 (c / s) 0 (- a / s)"
      using False
      by (simp add: branch_axis_def up_def crossVectors_def normalize_def divideScalar_def
          multiplyScalar_def lengthv_def s_def)
    have q: "branch_quaternion (Vector3 a b c) = Some (Quaternion (c / s * S) 0 (- a / s * S) C)"
      using b_range
      by (simp add: branch_quaternion_def Math_acos_def ax setFromAxisAngle_def Let_def dot_def up_def
          th_def S_def C_def)
    have x: "C * (2 * (a / s * S)) = a"
    proof -
      have "C * (2 * (a / s * S)) = a * (2 * S * C) / s" by simp
      also have "\<dots> = a" using False by (simp add: SC)
      finally show ?thesis .
    qed
    have z: "C * (2 * (c / s * S)) = c"
    proof -
      have "C * (2 * (c / s * S)) = c * (2 * S * C) / s" by simp
      also have "\<dots> = c" using False by (simp add: SC)
      finally show ?thesis .
    qed
    have y: "1 - a / s * S * (2 * (a / s * S)) - c / s * S * (2 * (c / s * S)) = b"
    proof -
      have "1 - a / s * S * (2 * (a / s * S)) - c / s * S * (2 * (c / s * S))
              = 1 - 2 * (S * S) * ((c * c + a * a) / (s * s))"
        by (simp add: algebra_simps add_divide_distrib)
      also have "\<dots> = b" using False by (simp add: ss [symmetric] SS)
      finally show ?thesis .
    qed
    show ?thesis
      using x y z unfolding Vector3 q
      by (simp add: applyQuaternion_def up_def Let_def)
  qed
qed


section \<open>Properties of the expander\<close>

lemma rewrite_char_replacement: "rewrite_char R c acc = acc @ replacement R c"
  by (cases "R c") (simp_all add: rewrite_char_def replacement_def truthy_def)

lemma fold_rewrite_char:
  "fold (rewrite_char R) s acc = acc @ concat (map (replacement R) s)"
  by (induction s arbitrary: acc) (simp_all add: rewrite_char_replacement)

lemma rewrite_subst: "rewrite R s = subst_rewrite R s"
  by (simp add: rewrite_def subst_rewrite_def fold_rewrite_char)

lemma replacement_nonempty: "1 \<le> length (replacement R c)"
  by (cases "R c") (simp_all add: replacement_def Suc_le_eq)

lemma length_rewrite: "length s \<le> length (rewrite R s)"
proof (induction s)
  case Nil
  show ?case by simp
next
  case (Cons c s)
  have "length (rewrite R (c # s)) = length (replacement R c) + length (rewrite R s)"
    by (simp add: rewrite_subst subst_rewrite_def)
  with Cons replacement_nonempty [of R c] show ?case by simp
qed

lemma replacement_spec:
  assumes "R c \<noteq> Some []"
  shows "replacement R c = (case R c of Some r \<Rightarrow> r | None \<Rightarrow> [c])"
  using assms by (cases "R c") (simp_all add: replacement_def)

lemma rewrite_spec:
  assumes "\<forall>c. R c \<noteq> Some []"
  shows "rewrite R s = spec_rewrite R s"
proof -
  have "replacement R = (\<lambda>c. case R c of Some r \<Rightarrow> r | None \<Rightarrow> [c])"
    using assms by (intro ext replacement_spec) simp
  then show ?thesis
    by (simp add: rewrite_subst subst_rewrite_def spec_rewrite_def)
qed

lemma expandN_spec:
  assumes "\<forall>c. R c \<noteq> Some []"
  shows "expandN R S n = spec_expandN R S n"
proof -
  have "rewrite R = spec_rewrite R"
    by (rule ext) (rule rewrite_spec [OF assms])
  then show ?thesis
    by (simp add: expandN_def spec_expandN_def)
qed

lemma rules_nonempty: "\<forall>c. rules SPATIAL_TREE_RULES c \<noteq> Some []"
  by (simp add: SPATIAL_TREE_RULES_def)

text \<open>
  C1: the expander is a function of axiom, rules and iteration count. With the rule
  table of the program, and with any rule table in which no replacement is the empty
  string, every generation replaces each character \<open>c\<close> by \<open>R[c]\<close> when a rule for \<open>c\<close>
  exists, keeps \<open>c\<close> otherwise, and concatenates the replacements in the original order,
  for every axiom string and every number of generations. Axiom \<open>X\<close> with the rules
  \<open>{X \<rightarrow> F, F \<rightarrow> FF}\<close> gives \<open>FF\<close> after two generations, and zero generations give back
  the axiom.
\<close>

theorem expand_substitution:
  "expandN (rules SPATIAL_TREE_RULES) S n = spec_expandN (rules SPATIAL_TREE_RULES) S n
   \<and> ((\<forall>c. R c \<noteq> Some []) \<longrightarrow> expandN R S n = spec_expandN R S n)
   \<and> expandN [CHR ''X'' \<mapsto> ''F'', CHR ''F'' \<mapsto> ''FF''] ''X'' 2 = ''FF''
   \<and> expandN R S 0 = S"
proof -
  have "expandN (rules SPATIAL_TREE_RULES) S n = spec_expandN (rules SPATIAL_TREE_RULES) S n"
    by (rule expandN_spec [OF rules_nonempty])
  moreover have "(\<forall>c. R c \<noteq> Some []) \<longrightarrow> expandN R S n = spec_expandN R S n"
    by (simp add: expandN_spec)
  moreover have "expandN [CHR ''X'' \<mapsto> ''F'', CHR ''F'' \<mapsto> ''FF''] ''X'' 2 = ''FF''"
    by (simp add: expandN_def numeral_2_eq_2 rewrite_def rewrite_char_def truthy_def)
  moreover have "expandN R S 0 = S"
    by (simp add: expandN_def)
  ultimately show ?thesis by simp
qed

theorem expand_substitution_witness:
  "(\<forall>c. [CHR ''X'' \<mapsto> ''F'', CHR ''F'' \<mapsto> ''FF''] c \<noteq> Some [])
   \<and> spec_expandN [CHR ''X'' \<mapsto> ''F'', CHR ''F'' \<mapsto> ''FF''] ''X'' 2 = ''FF''
   \<and> expandN [CHR ''X'' \<mapsto> ''F'', CHR ''F'' \<mapsto> ''FF''] ''X'' 2 = ''FF''"
proof -
  have ne: "\<forall>c. [CHR ''X'' \<mapsto> ''F'', CHR ''F'' \<mapsto> ''FF''] c \<noteq> Some []"
    by simp
  from expand_substitution
    [where R = "[CHR ''X'' \<mapsto> ''F'', CHR ''F'' \<mapsto> ''FF'']" and S = "''X''" and n = 2] ne
  have a: "expandN [CHR ''X'' \<mapsto> ''F'', CHR ''F'' \<mapsto> ''FF''] ''X'' 2
         = spec_expandN [CHR ''X'' \<mapsto> ''F'', CHR ''F'' \<mapsto> ''FF''] ''X'' 2"
    and b: "expandN [CHR ''X'' \<mapsto> ''F'', CHR ''F'' \<mapsto> ''FF''] ''X'' 2 = ''FF''"
    by blast+
  from a b have "spec_expandN [CHR ''X'' \<mapsto> ''F'', CHR ''F'' \<mapsto> ''FF''] ''X'' 2 = ''FF''"
    by (rule trans [OF sym])
  with ne b show ?thesis by blast
qed

text \<open>
  C9: for the axiom and the rules of the program, the string after \<open>n + 1\<close> generations is
  at least as long as the string after \<open>n\<close> generations.
\<close>

theorem expand_length_monotonic:
  "length (expandN (rules SPATIAL_TREE_RULES) (axiom SPATIAL_TREE_RULES) n)
     \<le> length (expandN (rules SPATIAL_TREE_RULES) (axiom SPATIAL_TREE_RULES) (Suc n))"
  by (simp add: expandN_def length_rewrite)


section \<open>Properties of the interpreter\<close>

lemma step_F_eq: "step lib g rnd time CHR ''F'' s = step_F lib g rnd time s"
  by (simp add: step_def)

lemma last_branches_step_F:
  "last (branches (step_F lib g rnd time s)) =
     \<lparr> geometry = CylinderGeometry (radius (turtle s) * 0.8) (radius (turtle s))
          (length_t (turtle s) * (1 + (rnd (calls s) - 0.5) * lengthVariation g)) 6 1 False,
       mesh_position = addv (position (turtle s))
          (multiplyScalar (direction (turtle s))
             (length_t (turtle s) * (1 + (rnd (calls s) - 0.5) * lengthVariation g) * 0.5)),
       quaternion = branch_quaternion (direction (turtle s)),
       material_color = getPlantColor lib (depth (turtle s)) time,
       shininess = 20 \<rparr>"
  by (simp add: step_F_def Let_def)

lemma turtle_step_F:
  "turtle (step_F lib g rnd time s) =
     (turtle s)\<lparr> position := addv (position (turtle s))
          (multiplyScalar (direction (turtle s))
             (length_t (turtle s) * (1 + (rnd (calls s) - 0.5) * lengthVariation g))),
       color := getPlantColor lib (depth (turtle s)) time \<rparr>"
  by (simp add: step_F_def Let_def)

text \<open>
  C5 as stated: the position recorded in a branch is the turtle's position at the start
  of the move. For the first \<open>F\<close> of a run (turtle at the origin, heading up, length
  \<open>0.08\<close>, no jitter) the recorded position is \<open>(0, 0.04, 0)\<close>, not the origin: after
  copying the start position the code adds half of the step to it.
\<close>

theorem branch_position_counterexample:
  "mesh_position (last (branches (step plainColors SPATIAL_TREE_RULES (\<lambda>k. 1 / 2) 0 CHR ''F''
       (initial plainColors SPATIAL_TREE_RULES))))
     \<noteq> position (turtle (initial plainColors SPATIAL_TREE_RULES))"
  by (simp add: step_F_eq last_branches_step_F initial_def SPATIAL_TREE_RULES_def
      addv_def multiplyScalar_def)

text \<open>
  C5, amended: the position recorded in a branch is the start position of the move
  advanced by direction times half of the actual length, which is the midpoint between
  the turtle's position before and after the move.
\<close>

theorem branch_position_midpoint:
  "mesh_position (last (branches (step lib g rnd time CHR ''F'' s)))
     = addv (position (turtle s))
         (multiplyScalar (direction (turtle s))
            (length_t (turtle s) * (1 + (rnd (calls s) - 0.5) * lengthVariation g) * 0.5))
   \<and> mesh_position (last (branches (step lib g rnd time CHR ''F'' s)))
     = multiplyScalar (addv (position (turtle s))
                            (position (turtle (step lib g rnd time CHR ''F'' s)))) 0.5"
  by (simp add: step_F_eq last_branches_step_F turtle_step_F addv_def multiplyScalar_def
      algebra_simps)

text \<open>
  C6: processing \<open>]\<close> with an empty stack raises no error (the step is a total function)
  and changes nothing of the turtle but its depth, which is lowered by \<open>0.2\<close>; with a
  non-empty stack the turtle becomes the popped snapshot in all fields, with its depth
  lowered by \<open>0.2\<close>, and the snapshot is removed from the stack.
\<close>

theorem pop_step:
  "step lib g rnd time CHR '']'' \<lparr> turtle = t, stack = [], branches = bs, calls = k \<rparr>
     = \<lparr> turtle = t\<lparr> depth := depth t - 0.2 \<rparr>, stack = [], branches = bs, calls = k \<rparr>
   \<and> step lib g rnd time CHR '']'' \<lparr> turtle = t, stack = r # rest, branches = bs, calls = k \<rparr>
     = \<lparr> turtle = r\<lparr> depth := depth r - 0.2 \<rparr>, stack = rest, branches = bs, calls = k \<rparr>"
  by (simp add: step_def step_pop_def pop_def)

lemma length_branches_step:
  "length (branches (step lib g rnd time c s))
     = length (branches s) + (if c = CHR ''F'' then 1 else 0)"
  by (simp add: step_def step_F_def step_turn_def step_push_def step_pop_def Let_def
      split: prod.split)

lemma length_branches_traverse:
  "length (branches (traverse lib g rnd time cs s))
     = length (branches s) + count_list cs (CHR ''F'')"
  unfolding traverse_def
  by (induction cs arbitrary: s) (simp_all add: length_branches_step)

text \<open>
  C8: the number of branches produced by a traversal is the number of \<open>F\<close> characters in
  the symbol string, for the whole function and for any string from the initial state:
  a step on \<open>F\<close> emits exactly one branch, a step on any other character emits none.
\<close>

theorem branch_count:
  "length (generatePlantGeometry lib g rnd time) = count_list (expand g) (CHR ''F'')
   \<and> length (branches (traverse lib g rnd time cs (initial lib g))) = count_list cs (CHR ''F'')
   \<and> length (branches (step lib g rnd time c s))
       = length (branches s) + (if c = CHR ''F'' then 1 else 0)"
proof -
  have "branches (initial lib g) = []"
    by (simp add: initial_def)
  then show ?thesis
    by (simp add: generatePlantGeometry_def length_branches_traverse length_branches_step)
qed

lemma addv_half_back:
  "addv (addv p (multiplyScalar d (L / 2))) (multiplyScalar d (- (L / 2))) = p"
  by (cases p, cases d) (simp add: addv_def multiplyScalar_def)

lemma addv_half_forth:
  "addv (addv p (multiplyScalar d (L / 2))) (multiplyScalar d (L / 2))
     = addv p (multiplyScalar d L)"
  by (cases p, cases d) (simp add: addv_def multiplyScalar_def algebra_simps)

lemma applyQuaternion_vertical:
  "applyQuaternion (Vector3 0 h 0) q = multiplyScalar (applyQuaternion up q) h"
  using applyQuaternion_multiplyScalar [of up h q]
  by (simp add: up_def multiplyScalar_def)

lemma branch_ends:
  assumes "lengthv (direction (turtle s)) = 1" and "direction (turtle s) \<noteq> Vector3 0 (- 1) 0"
  shows "bottom_end (last (branches (step_F lib g rnd time s))) = Some (position (turtle s))"
    and "top_end (last (branches (step_F lib g rnd time s)))
           = Some (position (turtle (step_F lib g rnd time s)))"
proof -
  from rotate_up [OF assms] obtain q
    where q: "branch_quaternion (direction (turtle s)) = Some q"
      and r: "applyQuaternion up q = direction (turtle s)"
    by auto
  show "bottom_end (last (branches (step_F lib g rnd time s))) = Some (position (turtle s))"
    by (simp add: bottom_end_def mesh_point_def last_branches_step_F q
        applyQuaternion_vertical r addv_half_back)
  show "top_end (last (branches (step_F lib g rnd time s)))
           = Some (position (turtle (step_F lib g rnd time s)))"
    by (simp add: top_end_def mesh_point_def last_branches_step_F turtle_step_F q
        applyQuaternion_vertical r addv_half_forth)
qed

text \<open>
  C4 as stated: the radius at the near end of a branch, the end at the turtle's position
  before the move, is \<open>0.8\<close> times the turtle's radius. For the first \<open>F\<close> of a run the
  end of the cylinder that lies at the start position is its bottom cap, whose radius is
  the full radius \<open>0.02\<close>, not \<open>0.016\<close>, and the end at the position after the move is
  its top cap, whose radius is \<open>0.016\<close>, not the full radius.
\<close>

theorem taper_counterexample:
  "bottom_end (last (branches (step plainColors SPATIAL_TREE_RULES (\<lambda>k. 1 / 2) 0 CHR ''F''
       (initial plainColors SPATIAL_TREE_RULES))))
     = Some (position (turtle (initial plainColors SPATIAL_TREE_RULES)))
   \<and> radiusBottom (geometry (last (branches (step plainColors SPATIAL_TREE_RULES (\<lambda>k. 1 / 2) 0
       CHR ''F'' (initial plainColors SPATIAL_TREE_RULES)))))
     \<noteq> radius (turtle (initial plainColors SPATIAL_TREE_RULES)) * 0.8
   \<and> top_end (last (branches (step plainColors SPATIAL_TREE_RULES (\<lambda>k. 1 / 2) 0 CHR ''F''
       (initial plainColors SPATIAL_TREE_RULES))))
     = Some (position (turtle (step plainColors SPATIAL_TREE_RULES (\<lambda>k. 1 / 2) 0 CHR ''F''
         (initial plainColors SPATIAL_TREE_RULES))))
   \<and> radiusTop (geometry (last (branches (step plainColors SPATIAL_TREE_RULES (\<lambda>k. 1 / 2) 0
       CHR ''F'' (initial plainColors SPATIAL_TREE_RULES)))))
     \<noteq> radius (turtle (initial plainColors SPATIAL_TREE_RULES))"
  by (simp add: step_F_eq last_branches_step_F turtle_step_F bottom_end_def top_end_def
      mesh_point_def initial_def SPATIAL_TREE_RULES_def branch_quaternion_up
      applyQuaternion_def addv_def multiplyScalar_def)

text \<open>
  C4, amended: a branch emitted for \<open>F\<close> is a tapered cylinder whose bottom radius is the
  turtle's radius and whose top radius is \<open>0.8\<close> times that radius; when the direction is
  a unit vector other than straight down, the bottom cap lies at the turtle's position
  before the move (the near end) and the top cap at its position after the move (the far
  end). Processing \<open>F\<close> advances the position by direction times actual length and leaves
  direction, length, radius and depth unchanged.
\<close>

theorem forward_taper:
  "radiusBottom (geometry (last (branches (step lib g rnd time CHR ''F'' s))))
        = radius (turtle s)
    \<and> radiusTop (geometry (last (branches (step lib g rnd time CHR ''F'' s))))
        = radius (turtle s) * 0.8
    \<and> (lengthv (direction (turtle s)) = 1 \<and> direction (turtle s) \<noteq> Vector3 0 (- 1) 0 \<longrightarrow>
         bottom_end (last (branches (step lib g rnd time CHR ''F'' s)))
             = Some (position (turtle s))
         \<and> top_end (last (branches (step lib g rnd time CHR ''F'' s)))
             = Some (position (turtle (step lib g rnd time CHR ''F'' s))))
    \<and> position (turtle (step lib g rnd time CHR ''F'' s))
        = addv (position (turtle s)) (multiplyScalar (direction (turtle s))
            (length_t (turtle s) * (1 + (rnd (calls s) - 0.5) * lengthVariation g)))
    \<and> direction (turtle (step lib g rnd time CHR ''F'' s)) = direction (turtle s)
    \<and> length_t (turtle (step lib g rnd time CHR ''F'' s)) = length_t (turtle s)
    \<and> radius (turtle (step lib g rnd time CHR ''F'' s)) = radius (turtle s)
    \<and> depth (turtle (step lib g rnd time CHR ''F'' s)) = depth (turtle s)"
proof -
  have ends: "bottom_end (last (branches (step_F lib g rnd time s))) = Some (position (turtle s))
      \<and> top_end (last (branches (step_F lib g rnd time s)))
          = Some (position (turtle (step_F lib g rnd time s)))"
    if "lengthv (direction (turtle s)) = 1" and "direction (turtle s) \<noteq> Vector3 0 (- 1) 0"
    using branch_ends [OF that] by simp
  have rest: "radiusBottom (geometry (last (branches (step_F lib g rnd time s)))) = radius (turtle s)
      \<and> radiusTop (geometry (last (branches (step_F lib g rnd time s)))) = radius (turtle s) * 0.8
      \<and> turtle (step_F lib g rnd time s)
          = (turtle s)\<lparr> position := addv (position (turtle s))
               (multiplyScalar (direction (turtle s))
                  (length_t (turtle s) * (1 + (rnd (calls s) - 0.5) * lengthVariation g))),
             color := getPlantColor lib (depth (turtle s)) time \<rparr>"
    by (simp add: last_branches_step_F turtle_step_F)
  from ends rest show ?thesis
    unfolding step_F_eq by simp
qed

theorem forward_taper_witness:
  "lengthv (direction (turtle (initial plainColors SPATIAL_TREE_RULES))) = 1
   \<and> direction (turtle (initial plainColors SPATIAL_TREE_RULES)) \<noteq> Vector3 0 (- 1) 0
   \<and> top_end (last (branches (step plainColors SPATIAL_TREE_RULES (\<lambda>k. 1 / 2) 0 CHR ''F''
       (initial plainColors SPATIAL_TREE_RULES)))) = Some (Vector3 0 (2 / 25) 0)
   \<and> radiusTop (geometry (last (branches (step plainColors SPATIAL_TREE_RULES (\<lambda>k. 1 / 2) 0
       CHR ''F'' (initial plainColors SPATIAL_TREE_RULES))))) = 2 / 125
   \<and> bottom_end (last (branches (step plainColors SPATIAL_TREE_RULES (\<lambda>k. 1 / 2) 0 CHR ''F''
       (initial plainColors SPATIAL_TREE_RULES)))) = Some (Vector3 0 0 0)
   \<and> radiusBottom (geometry (last (branches (step plainColors SPATIAL_TREE_RULES (\<lambda>k. 1 / 2) 0
       CHR ''F'' (initial plainColors SPATIAL_TREE_RULES))))) = 1 / 50"
proof -
  let ?s = "initial plainColors SPATIAL_TREE_RULES"
  have u: "lengthv (direction (turtle ?s)) = 1"
    by (simp add: initial_def lengthv_def)
  have n: "direction (turtle ?s) \<noteq> Vector3 0 (- 1) 0"
    by (simp add: initial_def)
  have i: "position (turtle ?s) = Vector3 0 0 0" "radius (turtle ?s) = 1 / 50"
    "direction (turtle ?s) = Vector3 0 1 0" "length_t (turtle ?s) = 2 / 25"
    "lengthVariation SPATIAL_TREE_RULES = 1 / 10"
    by (simp_all add: initial_def SPATIAL_TREE_RULES_def)
  show ?thesis
    using forward_taper [of plainColors SPATIAL_TREE_RULES "\<lambda>k. 1 / 2" 0 ?s] u n
    by (simp add: i addv_def multiplyScalar_def)
qed

text \<open>
  C3 as stated: when the direction is parallel or anti-parallel to the up vector, the
  orientation is computed with a fallback axis perpendicular to the direction, so that
  no zero axis arises from normalizing a zero cross product. At the first \<open>F\<close> of a run,
  where the direction is the up vector itself, the axis the code computes is the zero
  vector, which is not of unit length.
\<close>

theorem vertical_axis_counterexample:
  "branch_axis (direction (turtle (initial plainColors SPATIAL_TREE_RULES))) = Vector3 0 0 0
   \<and> lengthv (branch_axis (direction (turtle (initial plainColors SPATIAL_TREE_RULES)))) \<noteq> 1"
  by (simp add: initial_def branch_axis_vertical lengthv_def)

text \<open>
  C3, amended: when the direction is exactly the up vector \<open>(0, 1, 0)\<close>, no fallback axis
  is chosen: the rotation axis is the zero vector, which normalizing the zero cross
  product leaves unchanged; the angle is zero, the branch is emitted, and its orientation
  is the identity quaternion \<open>(0, 0, 0, 1)\<close>, with no NaN component.
\<close>

theorem vertical_axis_zero:
  assumes "direction (turtle s) = Vector3 0 1 0"
  shows "branch_axis (direction (turtle s)) = Vector3 0 0 0
    \<and> quaternion (last (branches (step lib g rnd time CHR ''F'' s)))
        = Some (Quaternion 0 0 0 1)
    \<and> length (branches (step lib g rnd time CHR ''F'' s)) = length (branches s) + 1"
  using assms
  by (simp add: branch_axis_vertical step_F_eq last_branches_step_F branch_quaternion_up
      length_branches_step [of lib g rnd time "CHR ''F''", unfolded step_F_eq, simplified])

theorem vertical_axis_zero_witness:
  "direction (turtle (initial plainColors SPATIAL_TREE_RULES)) = Vector3 0 1 0
   \<and> quaternion (last (branches (step plainColors SPATIAL_TREE_RULES (\<lambda>k. 1 / 2) 0 CHR ''F''
        (initial plainColors SPATIAL_TREE_RULES)))) = Some (Quaternion 0 0 0 1)"
proof -
  have d: "direction (turtle (initial plainColors SPATIAL_TREE_RULES)) = Vector3 0 1 0"
    by (simp add: initial_def)
  from vertical_axis_zero [OF d, of plainColors SPATIAL_TREE_RULES "\<lambda>k. 1 / 2" 0] d
  show ?thesis by simp
qed

lemma unit_dirs_step:
  assumes "unit_dirs s" and "nondegenerate_step rnd c s"
  shows "unit_dirs (step lib g rnd time c s)"
proof -
  consider (F) "c = CHR ''F''" | (turn) "c = CHR ''+'' \<or> c = CHR ''-''"
    | (push) "c = CHR ''[''" | (pop) "c = CHR '']''"
    | (other) "c \<noteq> CHR ''F''" "c \<noteq> CHR ''+''" "c \<noteq> CHR ''-''" "c \<noteq> CHR ''[''" "c \<noteq> CHR '']''"
    by blast
  then show ?thesis
  proof cases
    case F
    with assms(1) show ?thesis
      by (simp add: step_def step_F_def unit_dirs_def Let_def)
  next
    case turn
    with assms(2) have "axisSample rnd (calls s + 1) \<noteq> Vector3 0 0 0"
      by (auto simp: nondegenerate_step_def)
    then have "lengthv (rotationAxis rnd (calls s + 1)) = 1"
      by (simp add: rotationAxis_def lengthv_normalize)
    with assms(1) turn show ?thesis
      by (auto simp: step_def step_turn_def unit_dirs_def Let_def applyAxisAngle_length)
  next
    case push
    with assms(2) have "addv (direction (turtle s)) (spatialVariation rnd (calls s)) \<noteq> Vector3 0 0 0"
      by (simp add: nondegenerate_step_def)
    then have "lengthv (normalize (addv (direction (turtle s)) (spatialVariation rnd (calls s)))) = 1"
      by (rule lengthv_normalize)
    with assms(1) push show ?thesis
      by (simp add: step_def step_push_def unit_dirs_def Let_def push_def)
  next
    case pop
    with assms(1) show ?thesis
      by (cases "stack s") (simp_all add: step_def step_pop_def unit_dirs_def pop_def Let_def)
  next
    case other
    with assms(1) show ?thesis by (simp add: step_def)
  qed
qed

lemma unit_dirs_traverse:
  assumes "unit_dirs s" and "nondegenerate lib g rnd time cs s"
  shows "unit_dirs (traverse lib g rnd time (take n cs) s)"
  using assms
proof (induction cs arbitrary: s n)
  case Nil
  then show ?case by (simp add: traverse_def)
next
  case (Cons c cs)
  show ?case
  proof (cases n)
    case 0
    with Cons.prems show ?thesis by (simp add: traverse_def)
  next
    case (Suc m)
    from Cons.prems have "unit_dirs (step lib g rnd time c s)"
      and "nondegenerate lib g rnd time cs (step lib g rnd time c s)"
      by (simp_all add: unit_dirs_step)
    then have "unit_dirs (traverse lib g rnd time (take m cs) (step lib g rnd time c s))"
      by (rule Cons.IH)
    with Suc show ?thesis by (simp add: traverse_def)
  qed
qed

lemma unit_dirs_initial: "unit_dirs (initial lib g)"
  by (simp add: unit_dirs_def initial_def lengthv_def)

text \<open>
  C10: along a traversal from the initial state in which every sampled rotation axis is
  non-zero before normalization and every perturbed direction at \<open>[\<close> is non-zero, the
  turtle's direction is a unit vector after every prefix of the symbol string, that is,
  before and after every symbol.
\<close>

theorem direction_unit:
  assumes "nondegenerate lib g rnd time cs (initial lib g)"
  shows "lengthv (direction (turtle (traverse lib g rnd time (take n cs) (initial lib g)))) = 1"
  using unit_dirs_traverse [OF unit_dirs_initial assms, of n]
  by (simp add: unit_dirs_def)

theorem direction_unit_witness:
  "nondegenerate plainColors SPATIAL_TREE_RULES (\<lambda>k. 0) 0 ''[+F]''
     (initial plainColors SPATIAL_TREE_RULES)
   \<and> lengthv (direction (turtle (traverse plainColors SPATIAL_TREE_RULES (\<lambda>k. 0) 0
        (take 2 ''[+F]'') (initial plainColors SPATIAL_TREE_RULES)))) = 1"
proof -
  have nd: "nondegenerate plainColors SPATIAL_TREE_RULES (\<lambda>k. 0) 0 ''[+F]''
     (initial plainColors SPATIAL_TREE_RULES)"
    by (simp add: nondegenerate_step_def axisSample_def initial_def addv_def spatialVariation_def)
  from direction_unit [OF nd, of 2] nd show ?thesis by simp
qed


lemma calls_step: "calls (step lib g rnd time c s) = calls s + consumed c"
  by (simp add: step_def consumed_def step_F_def step_turn_def step_push_def step_pop_def
      Let_def split: prod.split)

lemma step_no_jitter:
  assumes "lengthVariation g = 0" and "angleVariation g = 0"
    and "c = CHR ''+'' \<or> c = CHR ''-'' \<Longrightarrow> axisSample r1 (calls s + 1) = axisSample r2 (calls s + 1)"
    and "c = CHR ''['' \<Longrightarrow> spatialVariation r1 (calls s) = spatialVariation r2 (calls s)"
  shows "step lib g r1 time c s = step lib g r2 time c s"
  using assms
  by (auto simp: step_def step_F_def step_turn_def step_push_def Let_def rotationAxis_def)

lemma traverse_no_jitter:
  assumes "lengthVariation g = 0" and "angleVariation g = 0"
    and "same_axes r1 r2 cs (calls s)" and "same_perturbations r1 r2 cs (calls s)"
  shows "traverse lib g r1 time cs s = traverse lib g r2 time cs s"
  using assms(3,4)
proof (induction cs arbitrary: s)
  case Nil
  show ?case by (simp add: traverse_def)
next
  case (Cons c cs)
  from Cons.prems have eq: "step lib g r1 time c s = step lib g r2 time c s"
    by (intro step_no_jitter assms(1,2)) simp_all
  from Cons.prems have "same_axes r1 r2 cs (calls (step lib g r1 time c s))"
    and "same_perturbations r1 r2 cs (calls (step lib g r1 time c s))"
    by (simp_all add: calls_step)
  then have "traverse lib g r1 time cs (step lib g r1 time c s)
           = traverse lib g r2 time cs (step lib g r1 time c s)"
    by (rule Cons.IH)
  then show ?case by (simp add: traverse_def eq)
qed

text \<open>
  C2 as stated: with both jitter factors zero and the same rotation axes in both runs,
  two traversals of the same symbol string emit the same branches. On the string \<open>[F\<close>,
  which has no turn at all, a random source that always returns \<open>1/2\<close> and one that always
  returns \<open>0\<close> give different branches: the perturbation of the direction at \<open>[\<close> is
  sampled with the fixed amplitude \<open>0.3\<close>, whatever the two factors are.
\<close>

theorem fixed_axis_counterexample:
  "lengthVariation NO_JITTER_RULES = 0 \<and> angleVariation NO_JITTER_RULES = 0
   \<and> same_axes (\<lambda>k. 1 / 2) (\<lambda>k. 0) ''[F'' 0
   \<and> branches (traverse plainColors NO_JITTER_RULES (\<lambda>k. 1 / 2) 0 ''[F''
        (initial plainColors NO_JITTER_RULES))
     \<noteq> branches (traverse plainColors NO_JITTER_RULES (\<lambda>k. 0) 0 ''[F''
        (initial plainColors NO_JITTER_RULES))"
proof -
  have a: "vx (mesh_position (last (branches (traverse plainColors NO_JITTER_RULES (\<lambda>k. 1 / 2) 0
        ''[F'' (initial plainColors NO_JITTER_RULES))))) = 0"
    by (simp add: traverse_def step_def step_push_def last_branches_step_F Let_def initial_def
        addv_def multiplyScalar_def spatialVariation_def normalize_def divideScalar_def
        lengthv_def)
  have b: "vx (mesh_position (last (branches (traverse plainColors NO_JITTER_RULES (\<lambda>k. 0) 0
        ''[F'' (initial plainColors NO_JITTER_RULES))))) \<noteq> 0"
    by (simp add: traverse_def step_def step_push_def last_branches_step_F Let_def initial_def
        addv_def multiplyScalar_def spatialVariation_def normalize_def divideScalar_def
        lengthv_def NO_JITTER_RULES_def SPATIAL_TREE_RULES_def)
  from a b have "branches (traverse plainColors NO_JITTER_RULES (\<lambda>k. 1 / 2) 0 ''[F''
        (initial plainColors NO_JITTER_RULES))
     \<noteq> branches (traverse plainColors NO_JITTER_RULES (\<lambda>k. 0) 0 ''[F''
        (initial plainColors NO_JITTER_RULES))"
    by metis
  then show ?thesis
    by (simp add: NO_JITTER_RULES_def consumed_def)
qed

text \<open>
  C2, amended: with both jitter factors zero, two traversals of the same symbol string
  whose random sources give the same rotation axis samples at every turn and the same
  perturbation samples at every \<open>[\<close> emit identical branch sequences; the samples drawn
  for the length and angle jitter may differ.
\<close>

theorem no_jitter_deterministic:
  assumes "lengthVariation g = 0" and "angleVariation g = 0"
    and "same_axes r1 r2 cs 0" and "same_perturbations r1 r2 cs 0"
  shows "branches (traverse lib g r1 time cs (initial lib g))
       = branches (traverse lib g r2 time cs (initial lib g))"
proof -
  have "calls (initial lib g) = 0" by (simp add: initial_def)
  with assms show ?thesis
    by (simp add: traverse_no_jitter)
qed

theorem no_jitter_deterministic_witness:
  "same_axes (\<lambda>k. 1 / 2) (\<lambda>k. if k = 3 \<or> k = 4 then 0 else 1 / 2) ''[F+F'' 0
   \<and> same_perturbations (\<lambda>k. 1 / 2) (\<lambda>k. if k = 3 \<or> k = 4 then 0 else 1 / 2) ''[F+F'' 0
   \<and> branches (traverse plainColors NO_JITTER_RULES (\<lambda>k. 1 / 2) 0 ''[F+F''
        (initial plainColors NO_JITTER_RULES))
     = branches (traverse plainColors NO_JITTER_RULES (\<lambda>k. if k = 3 \<or> k = 4 then 0 else 1 / 2) 0
        ''[F+F'' (initial plainColors NO_JITTER_RULES))"
proof -
  have l: "lengthVariation NO_JITTER_RULES = 0" and a: "angleVariation NO_JITTER_RULES = 0"
    by (simp_all add: NO_JITTER_RULES_def)
  have x: "same_axes (\<lambda>k. 1 / 2) (\<lambda>k. if k = 3 \<or> k = 4 then 0 else 1 / 2) ''[F+F'' 0"
    by (simp add: consumed_def axisSample_def)
  have p: "same_perturbations (\<lambda>k. 1 / 2) (\<lambda>k. if k = 3 \<or> k = 4 then 0 else 1 / 2) ''[F+F'' 0"
    by (simp add: consumed_def spatialVariation_def)
  from no_jitter_deterministic [OF l a x p, of plainColors 0] x p show ?thesis
    by simp
qed



section \<open>Properties of the stack on the store\<close>

lemma snapshot_eq:
  assumes "valid h a"
  shows "snapshot h a =
     (h\<lparr> vectors := (vectors h)(allocated h := vectors h (position_ref (states h a)),
                               Suc (allocated h) := vectors h (direction_ref (states h a))),
         colors := (colors h)(Suc (Suc (allocated h)) := colors h (color_ref (states h a))),
         states := (states h)(Suc (Suc (Suc (allocated h))) :=
            \<lparr> position_ref = allocated h, direction_ref = Suc (allocated h),
              length_o = length_o (states h a), angle_o = angle_o (states h a),
              color_ref = Suc (Suc (allocated h)), radius_o = radius_o (states h a),
              depth_o = depth_o (states h a) \<rparr>),
         allocated := Suc (Suc (Suc (Suc (allocated h)))) \<rparr>,
      Suc (Suc (Suc (allocated h))))"
  using assms
  by (simp add: snapshot_def clone_vector_def clone_color_def new_vector_def new_color_def
      new_state_def Let_def valid_def)

text \<open>What a snapshot does, seen from the objects that were allocated before it.\<close>

lemma snapshot_facts:
  assumes v: "valid h a" and s: "snapshot h a = (h', e)"
  shows "e = allocated h + 3"
    and "allocated h' = allocated h + 4"
    and "state_of h' e = state_of h a"
    and "valid h' e"
    and "refs_of h' e = {allocated h, allocated h + 1, allocated h + 2, allocated h + 3}"
    and "\<And>b. valid h b \<Longrightarrow> valid h' b \<and> state_of h' b = state_of h b \<and> refs_of h' b = refs_of h b"
  using s v unfolding snapshot_eq [OF v]
  by (auto simp: state_of_def valid_def refs_of_def)

lemma refs_of_valid: "valid h b \<Longrightarrow> c \<in> refs_of h b \<Longrightarrow> c < allocated h"
  by (auto simp: valid_def refs_of_def)

lemma state_of_mutate_other:
  assumes "refs_of h b \<inter> refs_of h a = {}"
  shows "state_of (mutate h a t) b = state_of h b"
proof -
  from assms have "b \<noteq> a"
    and "position_ref (states h b) \<noteq> position_ref (states h a)"
    and "position_ref (states h b) \<noteq> direction_ref (states h a)"
    and "direction_ref (states h b) \<noteq> position_ref (states h a)"
    and "direction_ref (states h b) \<noteq> direction_ref (states h a)"
    and "color_ref (states h b) \<noteq> color_ref (states h a)"
    by (auto simp: refs_of_def)
  then show ?thesis
    by (simp add: state_of_def mutate_def)
qed

lemma state_of_mutate_self:
  assumes "position_ref (states h a) \<noteq> direction_ref (states h a)"
  shows "state_of (mutate h a t) a = t"
  using assms by (simp add: state_of_def mutate_def)

text \<open>
  C7: in a store where the state object \<open>s\<close> and the entries of the stack are valid,
  pushing \<open>s\<close> and popping at once returns a state object \<open>r\<close> equal to \<open>s\<close> in all fields
  and leaves the stack as it was. The snapshot \<open>e\<close> that was on the stack in between, the
  popped object \<open>r\<close> and the source \<open>s\<close> share no reference, and an arbitrary mutation of
  \<open>r\<close> and of the objects it refers to changes \<open>r\<close> only: \<open>s\<close>, the snapshot and every state
  pushed earlier (from \<open>s\<close> or any other object) keep their values.
\<close>

theorem push_pop_roundtrip:
  assumes vs: "valid h s" and vstk: "list_all (valid h) stk"
    and push: "stack_push h stk s = (h1, stk1)"
    and pop: "stack_pop h1 stk1 = (h2, res, stk2)"
  shows "\<exists>e r. stk1 = e # stk \<and> res = Some r \<and> stk2 = stk
     \<and> state_of h2 r = state_of h s
     \<and> state_of h1 e = state_of h s
     \<and> refs_of h2 r \<inter> refs_of h2 s = {}
     \<and> refs_of h2 r \<inter> refs_of h2 e = {}
     \<and> refs_of h2 e \<inter> refs_of h2 s = {}
     \<and> state_of (mutate h2 r t) r = t
     \<and> state_of (mutate h2 r t) s = state_of h s
     \<and> state_of (mutate h2 r t) e = state_of h s
     \<and> map (state_of (mutate h2 r t)) stk = map (state_of h) stk"
proof -
  obtain e where snap1: "snapshot h s = (h1, e)" and stk1: "stk1 = e # stk"
    using push by (auto simp: stack_push_def split: prod.splits)
  note f1 = snapshot_facts [OF vs snap1]
  have ve: "valid h1 e" by (rule f1(4))
  obtain r where snap2: "snapshot h1 e = (h2, r)" and res: "res = Some r" and stk2: "stk2 = stk"
    using pop unfolding stk1 by (auto simp: stack_pop_def split: prod.splits)
  note f2 = snapshot_facts [OF ve snap2]
  have old: "valid h2 b \<and> state_of h2 b = state_of h b \<and> refs_of h2 b = refs_of h b
      \<and> (\<forall>c \<in> refs_of h b. c < allocated h)" if "valid h b" for b
    using f1(6) [OF that] f2(6) [of b] refs_of_valid [OF that] by simp
  have rr: "refs_of h2 r = {allocated h + 4, allocated h + 5, allocated h + 6, allocated h + 7}"
    using f2(5) f1(2) by (simp add: numeral_eq_Suc insert_commute)
  have re: "refs_of h2 e = {allocated h, allocated h + 1, allocated h + 2, allocated h + 3}"
    using f2(6) [OF ve] f1(5) by simp
  have disj_old: "refs_of h2 b \<inter> refs_of h2 r = {}" if "valid h b" for b
    using old [OF that] unfolding rr by fastforce
  have disj_e: "refs_of h2 e \<inter> refs_of h2 r = {}"
    unfolding rr re by simp
  have disj_es: "refs_of h2 e \<inter> refs_of h2 s = {}"
    using old [OF vs] unfolding re by fastforce
  have r_eq: "state_of h2 r = state_of h s"
    using f2(3) f1(3) by simp
  have self: "state_of (mutate h2 r t) r = t"
  proof (rule state_of_mutate_self)
    from snap2 ve show "position_ref (states h2 r) \<noteq> direction_ref (states h2 r)"
      by (simp add: snapshot_eq)  auto
  qed
  have keep_s: "state_of (mutate h2 r t) s = state_of h s"
    using state_of_mutate_other [OF disj_old [OF vs]] old [OF vs] by simp
  have keep_e: "state_of (mutate h2 r t) e = state_of h s"
    using state_of_mutate_other [OF disj_e] f2(6) [OF ve] f1(3) by simp
  have keep_stk: "map (state_of (mutate h2 r t)) stk = map (state_of h) stk"
  proof (rule map_cong [OF refl])
    fix b assume "b \<in> set stk"
    with vstk have vb: "valid h b" by (simp add: list_all_iff)
    show "state_of (mutate h2 r t) b = state_of h b"
      using state_of_mutate_other [OF disj_old [OF vb]] old [OF vb] by simp
  qed
  from stk1 res stk2 r_eq f1(3) disj_old [OF vs] disj_e disj_es self keep_s keep_e keep_stk
  show ?thesis by (auto simp: Int_commute)
qed

theorem push_pop_roundtrip_witness:
  "\<exists>hA stkA h1 stk1 h2 r.
      stack_push store0 [] 3 = (hA, stkA)
    \<and> stack_push hA stkA 3 = (h1, stk1)
    \<and> stack_pop h1 stk1 = (h2, Some r, stkA)
    \<and> state_of h2 r = state_of store0 3
    \<and> state_of (mutate h2 r
          \<lparr> position = Vector3 9 9 9, direction = Vector3 1 0 0, length_t = 0, angle_t = 0,
            color = Color 1 1 1, radius = 0, depth = 0 \<rparr>) r
        = \<lparr> position = Vector3 9 9 9, direction = Vector3 1 0 0, length_t = 0, angle_t = 0,
            color = Color 1 1 1, radius = 0, depth = 0 \<rparr>
    \<and> map (state_of (mutate h2 r
          \<lparr> position = Vector3 9 9 9, direction = Vector3 1 0 0, length_t = 0, angle_t = 0,
            color = Color 1 1 1, radius = 0, depth = 0 \<rparr>)) stkA
        = [state_of store0 3]"
proof -
  let ?t = "\<lparr> position = Vector3 9 9 9, direction = Vector3 1 0 0, length_t = 0, angle_t = 0,
            color = Color 1 1 1, radius = 0, depth = 0 \<rparr>"
  have v0: "valid store0 3"
    by (simp add: valid_def store0_def)
  obtain hA e0 where snapA: "snapshot store0 3 = (hA, e0)"
    by (cases "snapshot store0 3")
  then have pushA: "stack_push store0 [] 3 = (hA, [e0])"
    by (simp add: stack_push_def)
  note fA = snapshot_facts [OF v0 snapA]
  have vA: "valid hA 3" and sA: "state_of hA 3 = state_of store0 3"
    using fA(6) [OF v0] by simp_all
  have lA: "list_all (valid hA) [e0]"
    using fA(4) by simp
  obtain h1 stk1 where push: "stack_push hA [e0] 3 = (h1, stk1)"
    by (cases "stack_push hA [e0] 3")
  obtain h2 res stk2 where pop: "stack_pop h1 stk1 = (h2, res, stk2)"
    by (cases "stack_pop h1 stk1")
  from push_pop_roundtrip [OF vA lA push pop, of ?t]
  obtain r where "res = Some r" and "stk2 = [e0]"
    and "state_of h2 r = state_of hA 3"
    and "state_of (mutate h2 r ?t) r = ?t"
    and "map (state_of (mutate h2 r ?t)) [e0] = map (state_of hA) [e0]"
    by blast
  with pushA push pop sA fA(3) show ?thesis
    by (intro exI [of _ hA] exI [of _ "[e0]"] exI [of _ h1] exI [of _ stk1] exI [of _ h2]
        exI [of _ r]) simp
qed

text \<open>
  The value model of the stack agrees with the store model: on valid state objects,
  \<open>stack_push\<close> and \<open>stack_pop\<close> act on the denoted states as \<open>push\<close> and \<open>pop\<close> do.
\<close>

lemma map_state_of_snapshot:
  assumes "valid h a" and "snapshot h a = (h', e)" and "list_all (valid h) stk"
  shows "map (state_of h') stk = map (state_of h) stk"
proof (rule map_cong [OF refl])
  fix b assume "b \<in> set stk"
  with assms(3) have "valid h b" by (simp add: list_all_iff)
  from snapshot_facts(6) [OF assms(1,2) this] show "state_of h' b = state_of h b" by simp
qed

lemma stack_push_value:
  assumes "valid h a" and "list_all (valid h) stk" and "stack_push h stk a = (h', stk')"
  shows "map (state_of h') stk' = push (map (state_of h) stk) (state_of h a)"
proof -
  obtain e where snap: "snapshot h a = (h', e)" and stk': "stk' = e # stk"
    using assms(3) by (auto simp: stack_push_def split: prod.splits)
  from snapshot_facts(3) [OF assms(1) snap] map_state_of_snapshot [OF assms(1) snap assms(2)]
  show ?thesis by (simp add: stk' push_def)
qed

lemma stack_pop_value:
  assumes "list_all (valid h) stk" and "stack_pop h stk = (h', res, stk')"
  shows "(map_option (state_of h') res, map (state_of h') stk') = pop (map (state_of h) stk)"
proof (cases stk)
  case Nil
  with assms(2) show ?thesis by (simp add: stack_pop_def pop_def)
next
  case (Cons e rest)
  from assms(1) Cons have ve: "valid h e" and vrest: "list_all (valid h) rest" by simp_all
  obtain r where snap: "snapshot h e = (h', r)" and res: "res = Some r" and stk': "stk' = rest"
    using assms(2) Cons by (auto simp: stack_pop_def split: prod.splits)
  from snapshot_facts(3) [OF ve snap] map_state_of_snapshot [OF ve snap vrest]
  show ?thesis by (simp add: Cons res stk' pop_def)
qed


end
